theory Spec2Isabelle
  imports Main "HOL-Library.Word"
begin

section \<open>JavaScript strings\<close>

text \<open>
  A JavaScript string is a sequence of 16-bit code units. \<open>js\<close> writes one from its
  ASCII text.
\<close>

type_synonym code_unit = "16 word"

type_synonym js_string = "code_unit list"

definition js :: "string \<Rightarrow> js_string" where
  "js s = map of_char s"

section \<open>The SDK's types (types.ts)\<close>

text \<open>
  \<^verbatim>\<open>BasicParams\<close> carries the vendor API object, the application's configuration and a
  logger. The redirect helper reads three fields of the configuration only:
  \<^verbatim>\<open>config.appUrl\<close>, \<^verbatim>\<open>config.auth.path\<close> and \<^verbatim>\<open>config.isEmbeddedApp\<close>. The vendor API
  object and the logger are opaque here, so their types are parameters.
\<close>

record AuthConfig =
  path :: js_string

record AppConfig =
  appUrl :: js_string
  auth :: AuthConfig
  isEmbeddedApp :: bool

record ('api, 'logger) BasicParams =
  api :: 'api
  config :: AppConfig
  logger :: 'logger

section \<open>The runtime's \<^verbatim>\<open>Headers\<close> and \<^verbatim>\<open>Response\<close>\<close>

text \<open>
  The helper builds a \<^verbatim>\<open>Headers\<close> object and a \<^verbatim>\<open>Response\<close>. These are not classes of the
  repository: they are the classes of the Fetch Standard, as a server-side JavaScript
  runtime provides them. Both constructors check their arguments and throw, so they
  are modelled with their failures, following the standard's steps (converting a
  string to a byte string; append, set, get and has of a header list; normalizing and
  validating a header; initializing a response).
\<close>

datatype js_error = TypeError | RangeError

text \<open>A header's name and value are byte strings: a JavaScript string converts to one
  when each of its code units is at most 0xFF, and the conversion throws a
  \<^verbatim>\<open>TypeError\<close> otherwise.\<close>

definition is_byte_string :: "js_string \<Rightarrow> bool" where
  "is_byte_string s = list_all (\<lambda>c. c \<le> 0xFF) s"

text \<open>A header list: names are kept in lower case, since they are matched without
  regard to case.\<close>

type_synonym Headers = "(js_string \<times> js_string) list"

definition byte_lowercase :: "code_unit \<Rightarrow> code_unit" where
  "byte_lowercase c = (if 65 \<le> c \<and> c \<le> 90 then c + 32 else c)"

definition lowercase :: "js_string \<Rightarrow> js_string" where
  "lowercase s = map byte_lowercase s"

text \<open>A header name is a non-empty token: letters, digits and
  \<^verbatim>\<open>! # $ % & ' * + - . ^ _ ` | ~\<close>. All of these are below 0x80, so a header name is a
  byte string.\<close>

definition is_tchar :: "code_unit \<Rightarrow> bool" where
  "is_tchar c =
     ((48 \<le> c \<and> c \<le> 57) \<or> (65 \<le> c \<and> c \<le> 90) \<or> (97 \<le> c \<and> c \<le> 122) \<or>
      c \<in> set [33, 35, 36, 37, 38, 39, 42, 43, 45, 46, 94, 95, 96, 124, 126])"

definition is_header_name :: "js_string \<Rightarrow> bool" where
  "is_header_name name = (name \<noteq> [] \<and> list_all is_tchar name)"

text \<open>HTTP whitespace bytes are tab, line feed, carriage return and space; a header
  value is normalized by removing them from both ends.\<close>

definition is_http_whitespace :: "code_unit \<Rightarrow> bool" where
  "is_http_whitespace c = (c \<in> set [9, 10, 13, 32])"

definition is_http_tab_or_space :: "code_unit \<Rightarrow> bool" where
  "is_http_tab_or_space c = (c \<in> set [9, 32])"

definition is_nul_or_http_newline :: "code_unit \<Rightarrow> bool" where
  "is_nul_or_http_newline c = (c \<in> set [0, 10, 13])"

definition normalize_value :: "js_string \<Rightarrow> js_string" where
  "normalize_value v =
     rev (dropWhile is_http_whitespace (rev (dropWhile is_http_whitespace v)))"

text \<open>A header value has no leading or trailing tab or space and holds no NUL,
  line feed or carriage return.\<close>

definition is_header_value :: "js_string \<Rightarrow> bool" where
  "is_header_value v =
     ((case v of [] \<Rightarrow> True
       | _ \<Rightarrow> \<not> is_http_tab_or_space (hd v) \<and> \<not> is_http_tab_or_space (last v)) \<and>
      list_all (\<lambda>c. \<not> is_nul_or_http_newline c) v)"

text \<open>A name and a value that \<^verbatim>\<open>headers.append\<close> and \<^verbatim>\<open>headers.set\<close> accept: the value
  converts to a byte string, the name is a header name, and the normalized value is a
  header value.\<close>

definition header_entry_ok :: "js_string \<times> js_string \<Rightarrow> bool" where
  "header_entry_ok e =
     (is_header_name (fst e) \<and> is_byte_string (snd e) \<and>
      is_header_value (normalize_value (snd e)))"

text \<open>\<^verbatim>\<open>headers.append(name, value)\<close>: convert, normalize the value, validate name and
  value (a \<^verbatim>\<open>TypeError\<close> otherwise), add the header at the end.\<close>

definition Headers_append :: "Headers \<Rightarrow> js_string \<Rightarrow> js_string \<Rightarrow> js_error + Headers" where
  "Headers_append h name val =
     (if header_entry_ok (name, val) then Inr (h @ [(lowercase name, normalize_value val)])
      else Inl TypeError)"

text \<open>\<^verbatim>\<open>new Headers(init)\<close> for a record \<^verbatim>\<open>init\<close>: every entry is appended in turn, and
  the first failure is the constructor's.\<close>

fun Headers_fill :: "Headers \<Rightarrow> (js_string \<times> js_string) list \<Rightarrow> js_error + Headers" where
  "Headers_fill h [] = Inr h"
| "Headers_fill h ((name, val) # init) =
     (case Headers_append h name val of
        Inl e \<Rightarrow> Inl e
      | Inr h' \<Rightarrow> Headers_fill h' init)"

definition new_Headers :: "(js_string \<times> js_string) list \<Rightarrow> js_error + Headers" where
  "new_Headers init = Headers_fill [] init"

text \<open>Setting a header in a header list: the first header of that name takes the
  value and the others of that name go; a new name is added at the end.\<close>

fun header_list_set :: "Headers \<Rightarrow> js_string \<Rightarrow> js_string \<Rightarrow> Headers" where
  "header_list_set [] n v = [(n, v)]"
| "header_list_set ((k, w) # h) n v =
     (if k = n then (n, v) # filter (\<lambda>e. fst e \<noteq> n) h
      else (k, w) # header_list_set h n v)"

definition Headers_set :: "Headers \<Rightarrow> js_string \<Rightarrow> js_string \<Rightarrow> js_error + Headers" where
  "Headers_set h name val =
     (if header_entry_ok (name, val)
      then Inr (header_list_set h (lowercase name) (normalize_value val))
      else Inl TypeError)"

text \<open>Getting a name from a header list: the values of all headers of that name,
  joined by a comma and a space; nothing when there is none.\<close>

fun join_values :: "js_string list \<Rightarrow> js_string" where
  "join_values [] = []"
| "join_values [v] = v"
| "join_values (v # w # vs) = v @ [44, 32] @ join_values (w # vs)"

definition header_list_get :: "Headers \<Rightarrow> js_string \<Rightarrow> js_string option" where
  "header_list_get h n =
     (let vs = map snd (filter (\<lambda>e. fst e = n) h) in
      if vs = [] then None else Some (join_values vs))"

definition Headers_get :: "Headers \<Rightarrow> js_string \<Rightarrow> js_error + js_string option" where
  "Headers_get h name =
     (if is_header_name name then Inr (header_list_get h (lowercase name))
      else Inl TypeError)"

definition Headers_has :: "Headers \<Rightarrow> js_string \<Rightarrow> js_error + bool" where
  "Headers_has h name =
     (if is_header_name name then Inr (header_list_get h (lowercase name) \<noteq> None)
      else Inl TypeError)"

text \<open>
  \<^verbatim>\<open>new Response(body, {status, statusText, headers})\<close>: a status outside 200..599 is a
  \<^verbatim>\<open>RangeError\<close>, a status text that is not a reason phrase (tab, space, visible
  ASCII, bytes from 0x80 to 0xFF) is a \<^verbatim>\<open>TypeError\<close>; the response's headers are filled
  from the headers given, which were validated when they were set, so reading a name
  from the response gives what reading it from them gives.
\<close>

record Response =
  status :: nat
  statusText :: js_string
  headers :: Headers
  body :: "js_string option"

definition is_reason_phrase_char :: "code_unit \<Rightarrow> bool" where
  "is_reason_phrase_char c =
     (c = 9 \<or> c = 32 \<or> (33 \<le> c \<and> c \<le> 126) \<or> (128 \<le> c \<and> c \<le> 255))"

definition new_Response ::
  "js_string option \<Rightarrow> nat \<Rightarrow> js_string \<Rightarrow> Headers \<Rightarrow> js_error + Response" where
  "new_Response b st txt h =
     (if st < 200 \<or> 599 < st then Inl RangeError
      else if list_all is_reason_phrase_char txt
      then Inr \<lparr>status = st, statusText = txt, headers = h, body = b\<rparr>
      else Inl TypeError)"

section \<open>The redirect helper (auth/helpers/redirect-with-app-bridge-headers.ts)\<close>

text \<open>
  The helper imports \<^verbatim>\<open>REAUTH_URL_HEADER\<close> and \<^verbatim>\<open>addResponseHeaders\<close> from
  \<^verbatim>\<open>./add-response-headers\<close>, a module that is not among the sources. Its two exports
  are parameters of the model: the header's name, and the function that receives the
  \<^verbatim>\<open>Headers\<close> object, the embedded flag and the shop. The source's function changes
  the object it is given; here it returns the changed header list, or the error it
  throws.
\<close>

record AddResponseHeadersModule =
  REAUTH_URL_HEADER :: js_string
  addResponseHeaders :: "Headers \<Rightarrow> bool \<Rightarrow> js_string \<Rightarrow> js_error + Headers"

text \<open>What a JavaScript function throws: here a \<^verbatim>\<open>Response\<close>, or an error of the
  runtime.\<close>

datatype thrown = ThrowResponse Response | ThrowError js_error

definition getAppBridgeHeaders ::
  "AddResponseHeadersModule \<Rightarrow> ('api, 'logger) BasicParams \<Rightarrow> js_string \<Rightarrow> js_string
     \<Rightarrow> js_error + Headers" where
  "getAppBridgeHeaders M params url shopDomain =
     (case new_Headers [(REAUTH_URL_HEADER M, url)] of
        Inl e \<Rightarrow> Inl e
      | Inr hs \<Rightarrow> addResponseHeaders M hs (isEmbeddedApp (config params)) shopDomain)"

text \<open>The template literal \<^verbatim>\<open>`${config.appUrl}${config.auth.path}?shop=${shop}`\<close>: its
  pieces in order.\<close>

definition redirectUri :: "('api, 'logger) BasicParams \<Rightarrow> js_string \<Rightarrow> js_string" where
  "redirectUri params shopDomain =
     concat [appUrl (config params), path (auth (config params)), js ''?shop='', shopDomain]"

text \<open>The function's return type is \<^verbatim>\<open>never\<close>: \<open>Inl\<close> is what it throws, \<open>Inr\<close> would be
  a normal return.\<close>

definition redirectWithAppBridgeHeaders ::
  "AddResponseHeadersModule \<Rightarrow> ('api, 'logger) BasicParams \<Rightarrow> js_string \<Rightarrow> thrown + unit" where
  "redirectWithAppBridgeHeaders M params shopDomain =
     (case getAppBridgeHeaders M params (redirectUri params shopDomain) shopDomain of
        Inl e \<Rightarrow> Inl (ThrowError e)
      | Inr hs \<Rightarrow>
          (case new_Response None 401 (js ''Unauthorized'') hs of
             Inl e \<Rightarrow> Inl (ThrowError e)
           | Inr r \<Rightarrow> Inl (ThrowResponse r)))"

text \<open>
  What the theorems ask of the absent \<^verbatim>\<open>addResponseHeaders\<close>, for a given embedded flag
  and shop: whatever \<^verbatim>\<open>Headers\<close> object it is given, it returns normally
  (\<open>returns_normally\<close>), and moreover leaves the header named \<^verbatim>\<open>REAUTH_URL_HEADER\<close> as it
  found it (\<open>leaves_reauth_header\<close>).
\<close>

definition returns_normally :: "AddResponseHeadersModule \<Rightarrow> bool \<Rightarrow> js_string \<Rightarrow> bool" where
  "returns_normally M isEmbedded shopDomain =
     (\<forall>h. \<exists>h'. addResponseHeaders M h isEmbedded shopDomain = Inr h')"

definition leaves_reauth_header :: "AddResponseHeadersModule \<Rightarrow> bool \<Rightarrow> js_string \<Rightarrow> bool" where
  "leaves_reauth_header M isEmbedded shopDomain =
     (\<forall>h. \<exists>h'. addResponseHeaders M h isEmbedded shopDomain = Inr h' \<and>
        header_list_get h' (lowercase (REAUTH_URL_HEADER M)) =
        header_list_get h (lowercase (REAUTH_URL_HEADER M)))"

section \<open>\<^verbatim>\<open>addResponseHeaders\<close>, from the specification\<close>

text \<open>\<^verbatim>\<open>headers.set(name, value)\<close> for each header of a list in turn; the first failure
  ends it.\<close>

fun Headers_set_all :: "Headers \<Rightarrow> (js_string \<times> js_string) list \<Rightarrow> js_error + Headers" where
  "Headers_set_all h [] = Inr h"
| "Headers_set_all h ((name, val) # es) =
     (case Headers_set h name val of
        Inl e \<Rightarrow> Inl e
      | Inr h' \<Rightarrow> Headers_set_all h' es)"

text \<open>
  Modelled from the spec: \<^verbatim>\<open>addResponseHeaders\<close> of \<^verbatim>\<open>./add-response-headers\<close>, which is not
  among the sources. The specification says of it that the embedded-app-specific
  headers are included exactly when the app is embedded. Which headers these are it
  does not say: \<open>embeddedAppHeaders\<close> gives them, name and value, for a shop. Each is
  set on the \<^verbatim>\<open>Headers\<close> object with \<^verbatim>\<open>headers.set\<close>, in order.
\<close>

definition spec_addResponseHeaders ::
  "(js_string \<Rightarrow> (js_string \<times> js_string) list) \<Rightarrow> Headers \<Rightarrow> bool \<Rightarrow> js_string
     \<Rightarrow> js_error + Headers" where
  "spec_addResponseHeaders embeddedAppHeaders h isEmbedded shopDomain =
     (if isEmbedded then Headers_set_all h (embeddedAppHeaders shopDomain) else Inr h)"


section \<open>The session-storage adapter, from the specification\<close>

text \<open>
  Modelled from the spec: the session record of the MongoDB session-storage package,
  whose adapter is not among the sources (only its test configuration is). The
  specification gives a session as an opaque key and a payload of shop domain, access
  token, scopes, expiry and online/offline flag.
\<close>

record Session =
  key :: string
  shop_domain :: string
  access_token :: string
  scopes :: string
  expiry :: "nat option"
  is_online :: bool

text \<open>The collection of stored sessions: at most one record per key.\<close>

type_synonym collection = "string \<rightharpoonup> Session"

text \<open>
  Modelled from the spec: the database driver, which the adapter calls and the
  specification leaves to the driver dependency. Of the one call an operation makes of
  it, the model keeps what the specification speaks of: the call completes, or it
  raises an error.
\<close>

datatype 'e driver_call = Completes | Raises 'e

text \<open>
  Modelled from the spec: \<^verbatim>\<open>store\<close>, \<^verbatim>\<open>load\<close> and \<^verbatim>\<open>delete\<close> of the session-storage
  adapter, which is not among the sources. In the specification's words, store(session)
  upserts by key; load(key) returns the record or nothing; delete(key) removes it; the
  adapter propagates the underlying database driver's errors, and no retry, backoff, or
  consistency logic is added. Each operation makes one call of the driver; \<open>Inl\<close> is the
  error the caller receives.
\<close>

definition storeSession :: "'e driver_call \<Rightarrow> Session \<Rightarrow> collection \<Rightarrow> 'e + collection" where
  "storeSession call session db =
     (case call of Raises e \<Rightarrow> Inl e | Completes \<Rightarrow> Inr (db(key session \<mapsto> session)))"

text \<open>Modelled from the spec: \<^verbatim>\<open>load\<close> of the absent adapter; load(key) returns the
  record or nothing.\<close>

definition loadSession :: "'e driver_call \<Rightarrow> string \<Rightarrow> collection \<Rightarrow> 'e + Session option" where
  "loadSession call k db = (case call of Raises e \<Rightarrow> Inl e | Completes \<Rightarrow> Inr (db k))"

text \<open>Modelled from the spec: \<^verbatim>\<open>delete\<close> of the absent adapter; delete(key) removes the
  record.\<close>

definition deleteSession :: "'e driver_call \<Rightarrow> string \<Rightarrow> collection \<Rightarrow> 'e + collection" where
  "deleteSession call k db =
     (case call of Raises e \<Rightarrow> Inl e | Completes \<Rightarrow> Inr (db(k := None)))"

section \<open>The test configuration of the MongoDB session-storage package (jest.config.ts)\<close>

text \<open>
  A configuration object maps property names to values. The shared base configuration
  is imported from \<^verbatim>\<open>config/tests/jest.config\<close>, which is not among the sources: it is
  the parameter \<open>baseConfig\<close>. The object literal \<^verbatim>\<open>{...baseConfig, testTimeout: 70000}\<close>
  copies the properties of the base and then sets \<^verbatim>\<open>testTimeout\<close>.
\<close>

datatype js_value =
    JNumber int
  | JString string
  | JBoolean bool
  | JArray "js_value list"
  | JObject "(string \<times> js_value) list"

type_synonym jest_Config = "string \<rightharpoonup> js_value"

definition jest_config :: "jest_Config \<Rightarrow> jest_Config" where
  "jest_config baseConfig = baseConfig(''testTimeout'' \<mapsto> JNumber 70000)"

section \<open>Sample inputs\<close>

text \<open>
  Concrete inputs on which the theorems below are instantiated: a name for the reauth
  header and one embedded-app header (a Content-Security-Policy naming the shop) for
  the absent module, a configuration, and a base jest configuration.
\<close>

definition sample_embeddedAppHeaders :: "js_string \<Rightarrow> (js_string \<times> js_string) list" where
  "sample_embeddedAppHeaders shopDomain =
     [(js ''Content-Security-Policy'',
       js ''frame-ancestors https://'' @ shopDomain @ js '' https://admin.shopify.com;'')]"

definition sample_module :: AddResponseHeadersModule where
  "sample_module =
     \<lparr>REAUTH_URL_HEADER = js ''X-Shopify-API-Request-Failure-Reauthorize-Url'',
      addResponseHeaders = spec_addResponseHeaders sample_embeddedAppHeaders\<rparr>"

definition sample_params :: "bool \<Rightarrow> (unit, unit) BasicParams" where
  "sample_params embedded =
     \<lparr>api = (),
      config = \<lparr>appUrl = js ''https://app.example'', auth = \<lparr>path = js ''/auth''\<rparr>,
                isEmbeddedApp = embedded\<rparr>,
      logger = ()\<rparr>"

definition sample_baseConfig :: jest_Config where
  "sample_baseConfig =
     [''testEnvironment'' \<mapsto> JString ''node'', ''testTimeout'' \<mapsto> JNumber 30000]"

section \<open>Facts about header lists\<close>

lemma dropWhile_id: "xs \<noteq> [] \<Longrightarrow> \<not> P (hd xs) \<Longrightarrow> dropWhile P xs = xs"
  by (cases xs) auto

lemma header_value_ends:
  assumes "is_header_value v" "v \<noteq> []"
  shows "\<not> is_http_whitespace (hd v)" and "\<not> is_http_whitespace (last v)"
proof -
  from assms have a: "\<not> is_http_tab_or_space (hd v)" "\<not> is_http_tab_or_space (last v)"
    and b: "list_all (\<lambda>c. \<not> is_nul_or_http_newline c) v"
    by (auto simp: is_header_value_def split: list.splits)
  from assms(2) have "hd v \<in> set v" "last v \<in> set v" by auto
  with b have c: "\<not> is_nul_or_http_newline (hd v)" "\<not> is_nul_or_http_newline (last v)"
    by (auto simp: list_all_iff)
  from a(1) c(1) show "\<not> is_http_whitespace (hd v)"
    by (auto simp: is_http_whitespace_def is_http_tab_or_space_def is_nul_or_http_newline_def)
  from a(2) c(2) show "\<not> is_http_whitespace (last v)"
    by (auto simp: is_http_whitespace_def is_http_tab_or_space_def is_nul_or_http_newline_def)
qed

text \<open>Normalizing leaves a header value as it is.\<close>

lemma normalize_value_header_value:
  assumes "is_header_value v"
  shows "normalize_value v = v"
proof (cases "v = []")
  case True
  then show ?thesis by (simp add: normalize_value_def)
next
  case False
  from header_value_ends[OF assms False]
  have h: "\<not> is_http_whitespace (hd v)" and l: "\<not> is_http_whitespace (last v)" by auto
  from False h have 1: "dropWhile is_http_whitespace v = v" by (rule dropWhile_id)
  from False l have 2: "dropWhile is_http_whitespace (rev v) = rev v"
    by (intro dropWhile_id) (auto simp: hd_rev)
  show ?thesis by (simp add: normalize_value_def 1 2)
qed

lemma header_entry_ok_iff:
  "header_entry_ok (name, val) \<longleftrightarrow>
     is_header_name name \<and> is_byte_string val \<and> is_header_value (normalize_value val)"
  by (simp add: header_entry_ok_def)

lemma new_Headers_single:
  "new_Headers [(name, url)] =
     (if header_entry_ok (name, url)
      then Inr [(lowercase name, normalize_value url)] else Inl TypeError)"
  by (simp add: new_Headers_def Headers_append_def)

lemma header_list_get_single: "header_list_get [(n, v)] k = (if k = n then Some v else None)"
  by (simp add: header_list_get_def)

lemma filter_header_list_set_other:
  "k \<noteq> n \<Longrightarrow> filter (\<lambda>e. fst e = k) (header_list_set h n v) = filter (\<lambda>e. fst e = k) h"
proof (induction h)
  case Nil
  then show ?case by simp
next
  case (Cons a h)
  obtain k' w where a: "a = (k', w)" by (cases a)
  have "filter (\<lambda>e. fst e = k) (filter (\<lambda>e. fst e \<noteq> n) h) = filter (\<lambda>e. fst e = k) h"
    using Cons.prems by (induction h) auto
  with Cons a show ?case by auto
qed


text \<open>Setting a name changes what that name reads and nothing that another name reads.\<close>

lemma header_list_get_set_other:
  "k \<noteq> n \<Longrightarrow> header_list_get (header_list_set h n v) k = header_list_get h k"
  by (simp add: header_list_get_def filter_header_list_set_other)


lemma Headers_set_Inr:
  "Headers_set h name val = Inr h' \<longleftrightarrow>
     header_entry_ok (name, val) \<and>
     h' = header_list_set h (lowercase name) (normalize_value val)"
  by (auto simp: Headers_set_def)

lemma Headers_set_all_ok:
  "list_all header_entry_ok es \<Longrightarrow> \<exists>h'. Headers_set_all h es = Inr h'"
proof (induction es arbitrary: h)
  case Nil
  then show ?case by simp
next
  case (Cons e es)
  obtain name val where e: "e = (name, val)" by (cases e)
  from Cons.prems e
  have "Headers_set h name val = Inr (header_list_set h (lowercase name) (normalize_value val))"
    by (simp add: Headers_set_Inr)
  moreover from Cons
  have "\<exists>h'. Headers_set_all (header_list_set h (lowercase name) (normalize_value val)) es = Inr h'"
    by simp
  ultimately show ?case using e by simp
qed


lemma Headers_set_all_get_other:
  "Headers_set_all h es = Inr h' \<Longrightarrow> list_all (\<lambda>e. lowercase (fst e) \<noteq> n) es \<Longrightarrow>
     header_list_get h' n = header_list_get h n"
proof (induction es arbitrary: h)
  case Nil
  then show ?case by simp
next
  case (Cons e es)
  obtain name val where e: "e = (name, val)" by (cases e)
  from Cons.prems(1) e obtain h1
    where 1: "Headers_set h name val = Inr h1" and 2: "Headers_set_all h1 es = Inr h'"
    by (auto split: sum.splits)
  from Cons.prems(2) e
  have ne: "n \<noteq> lowercase name" and rest: "list_all (\<lambda>e. lowercase (fst e) \<noteq> n) es"
    by auto
  from 1 have "h1 = header_list_set h (lowercase name) (normalize_value val)"
    by (simp add: Headers_set_Inr)
  with ne have "header_list_get h1 n = header_list_get h n"
    by (simp add: header_list_get_set_other)
  with Cons.IH[OF 2 rest] show ?case by simp
qed


section \<open>Facts about the redirect helper\<close>

text \<open>When the constructor accepts the URL and \<^verbatim>\<open>addResponseHeaders\<close> leaves the reauth
  header alone, the headers built carry the normalized URL under that name.\<close>

lemma getAppBridgeHeaders_reauth:
  assumes ok: "header_entry_ok (REAUTH_URL_HEADER M, url)"
    and a: "leaves_reauth_header M (isEmbeddedApp (config params)) s"
  shows "\<exists>h. getAppBridgeHeaders M params url s = Inr h \<and>
           Headers_get h (REAUTH_URL_HEADER M) = Inr (Some (normalize_value url))"
proof -
  let ?h0 = "[(lowercase (REAUTH_URL_HEADER M), normalize_value url)]"
  from ok have c: "new_Headers [(REAUTH_URL_HEADER M, url)] = Inr ?h0"
    by (simp add: new_Headers_single)
  from ok have n: "is_header_name (REAUTH_URL_HEADER M)"
    by (simp add: header_entry_ok_def)
  from a obtain h
    where h: "addResponseHeaders M ?h0 (isEmbeddedApp (config params)) s = Inr h"
      and g: "header_list_get h (lowercase (REAUTH_URL_HEADER M)) =
              header_list_get ?h0 (lowercase (REAUTH_URL_HEADER M))"
    unfolding leaves_reauth_header_def by blast
  from c h have "getAppBridgeHeaders M params url s = Inr h"
    by (simp add: getAppBridgeHeaders_def)
  moreover from g n
  have "Headers_get h (REAUTH_URL_HEADER M) = Inr (Some (normalize_value url))"
    by (simp add: Headers_get_def header_list_get_single)
  ultimately show ?thesis by blast
qed


lemma getAppBridgeHeaders_rejects:
  assumes "\<not> header_entry_ok (REAUTH_URL_HEADER M, url)"
  shows "getAppBridgeHeaders M params url s = Inl TypeError"
  using assms by (auto simp: getAppBridgeHeaders_def new_Headers_single)

lemma new_Response_401:
  "new_Response None 401 (js ''Unauthorized'') h =
     Inr \<lparr>status = 401, statusText = js ''Unauthorized'', headers = h, body = None\<rparr>"
  by (simp add: new_Response_def is_reason_phrase_char_def js_def)

lemma redirect_cases:
  "redirectWithAppBridgeHeaders M params s =
     (case getAppBridgeHeaders M params (redirectUri params s) s of
        Inl e \<Rightarrow> Inl (ThrowError e)
      | Inr h \<Rightarrow> Inl (ThrowResponse
          \<lparr>status = 401, statusText = js ''Unauthorized'', headers = h, body = None\<rparr>))"
  by (simp add: redirectWithAppBridgeHeaders_def new_Response_401 split: sum.splits)

lemma leaves_reauth_header_returns:
  "leaves_reauth_header M e s \<Longrightarrow> returns_normally M e s"
  unfolding leaves_reauth_header_def returns_normally_def by blast

text \<open>The \<^verbatim>\<open>addResponseHeaders\<close> of the specification leaves the reauth header alone when
  the embedded-app headers are acceptable to \<^verbatim>\<open>headers.set\<close> and none of them has the
  reauth header's name.\<close>

lemma spec_addResponseHeaders_leaves_reauth:
  assumes "isEmbedded \<longrightarrow>
             list_all header_entry_ok (emb s) \<and>
             list_all (\<lambda>e. lowercase (fst e) \<noteq> lowercase R) (emb s)"
  shows "leaves_reauth_header
           \<lparr>REAUTH_URL_HEADER = R, addResponseHeaders = spec_addResponseHeaders emb\<rparr> isEmbedded s"
proof (cases isEmbedded)
  case False
  then show ?thesis by (simp add: leaves_reauth_header_def spec_addResponseHeaders_def)
next
  case True
  with assms have ok: "list_all header_entry_ok (emb s)"
    and ne: "list_all (\<lambda>e. lowercase (fst e) \<noteq> lowercase R) (emb s)" by auto
  have "\<exists>h'. Headers_set_all h (emb s) = Inr h' \<and>
          header_list_get h' (lowercase R) = header_list_get h (lowercase R)" for h
  proof -
    from Headers_set_all_ok[OF ok] obtain h' where h': "Headers_set_all h (emb s) = Inr h'"
      by blast
    from Headers_set_all_get_other[OF h' ne] h' show ?thesis by blast
  qed
  with True show ?thesis by (simp add: leaves_reauth_header_def spec_addResponseHeaders_def)
qed

section \<open>The sample inputs, evaluated\<close>

lemma sample_name: "is_header_name (REAUTH_URL_HEADER sample_module)"
  by (simp add: sample_module_def is_header_name_def is_tchar_def js_def)

lemma sample_entries:
  "list_all header_entry_ok (sample_embeddedAppHeaders (js ''shop1.myshopify.com'')) \<and>
   sample_embeddedAppHeaders (js ''shop1.myshopify.com'') \<noteq> [] \<and>
   distinct (map (\<lambda>e. lowercase (fst e))
     (sample_embeddedAppHeaders (js ''shop1.myshopify.com''))) \<and>
   list_all
     (\<lambda>e. lowercase (fst e) \<noteq> lowercase (js ''X-Shopify-API-Request-Failure-Reauthorize-Url''))
     (sample_embeddedAppHeaders (js ''shop1.myshopify.com''))"
  by code_simp

lemma sample_leaves: "leaves_reauth_header sample_module e (js ''shop1.myshopify.com'')"
  unfolding sample_module_def
  by (rule spec_addResponseHeaders_leaves_reauth) (simp add: sample_entries)

lemma sample_url:
  "is_byte_string (redirectUri (sample_params e) (js ''shop1.myshopify.com'')) \<and>
   is_header_value (redirectUri (sample_params e) (js ''shop1.myshopify.com''))"
  by (simp add: redirectUri_def sample_params_def is_header_value_def is_http_tab_or_space_def
      is_nul_or_http_newline_def is_byte_string_def js_def)

lemma sample_url_path:
  "is_byte_string (js ''/auth?shop=shop1.myshopify.com'') \<and>
   is_header_value (js ''/auth?shop=shop1.myshopify.com'')"
  by (simp add: is_header_value_def is_http_tab_or_space_def is_nul_or_http_newline_def
      is_byte_string_def js_def)

lemma sample_bad_url:
  "\<not> is_header_value (normalize_value
        (redirectUri (sample_params e) (js ''shop1'' @ [0x0A] @ js ''.myshopify.com'')))"
  by (simp add: redirectUri_def sample_params_def normalize_value_def is_http_whitespace_def
      is_header_value_def is_http_tab_or_space_def is_nul_or_http_newline_def js_def)


section \<open>The redirect URL\<close>

text \<open>
  C1. For every params and every shop domain string, the redirect URL that
  \<open>redirectWithAppBridgeHeaders\<close> computes is the concatenation
  appUrl + authPath + "?shop=" + shop: this is the URL the function hands to
  \<open>getAppBridgeHeaders\<close>, whose headers it throws in a 401 Response, and whose error
  it throws otherwise.
\<close>

theorem C1_redirect_url_is_concatenation:
  "redirectUri params s =
     appUrl (config params) @ path (auth (config params)) @ js ''?shop='' @ s \<and>
   redirectWithAppBridgeHeaders M params s =
     (case getAppBridgeHeaders M params
             (appUrl (config params) @ path (auth (config params)) @ js ''?shop='' @ s) s of
        Inl e \<Rightarrow> Inl (ThrowError e)
      | Inr h \<Rightarrow> Inl (ThrowResponse
          \<lparr>status = 401, statusText = js ''Unauthorized'', headers = h, body = None\<rparr>))"
  by (simp add: redirect_cases redirectUri_def)

section \<open>The reauth header on the thrown response\<close>

text \<open>
  C2 does not hold of every shop string: \<^verbatim>\<open>Headers\<close> normalizes a value before it stores
  it. For a shop that ends in a space the response is thrown, and its reauth header
  holds the URL without that space, which is not the computed URL.
\<close>

theorem C2_counterexample:
  "redirectWithAppBridgeHeaders sample_module (sample_params False)
     (js ''shop1.myshopify.com'' @ [0x20]) =
     Inl (ThrowResponse
       \<lparr>status = 401, statusText = js ''Unauthorized'',
        headers = [(js ''x-shopify-api-request-failure-reauthorize-url'',
                    js ''https://app.example/auth?shop=shop1.myshopify.com'')],
        body = None\<rparr>) \<and>
   Headers_get
     [(js ''x-shopify-api-request-failure-reauthorize-url'',
       js ''https://app.example/auth?shop=shop1.myshopify.com'')]
     (REAUTH_URL_HEADER sample_module) \<noteq>
     Inr (Some (redirectUri (sample_params False) (js ''shop1.myshopify.com'' @ [0x20])))"
  by code_simp

text \<open>
  C2, amended. For every params and every shop string whose computed redirect URL
  converts to a byte string (every code unit at most 0xFF) and is a header value (no
  NUL, line feed or carriage return in it, no tab or space at either end), with
  \<^verbatim>\<open>REAUTH_URL_HEADER\<close> a header name and an \<^verbatim>\<open>addResponseHeaders\<close> that returns and leaves
  the reauth header as it found it: \<open>redirectWithAppBridgeHeaders\<close> throws a Response
  that carries the \<^verbatim>\<open>REAUTH_URL_HEADER\<close> header, and the header's value is
  appUrl + authPath + "?shop=" + shop.
\<close>

theorem C2_reauth_header_is_redirect_url:
  assumes "is_header_name (REAUTH_URL_HEADER M)"
    and "is_byte_string (redirectUri params s)"
    and "is_header_value (redirectUri params s)"
    and "leaves_reauth_header M (isEmbeddedApp (config params)) s"
  shows "\<exists>r. redirectWithAppBridgeHeaders M params s = Inl (ThrowResponse r) \<and>
           Headers_get (headers r) (REAUTH_URL_HEADER M) =
             Inr (Some (appUrl (config params) @ path (auth (config params)) @
                        js ''?shop='' @ s))"
proof -
  from assms have ok: "header_entry_ok (REAUTH_URL_HEADER M, redirectUri params s)"
    by (simp add: header_entry_ok_iff normalize_value_header_value)
  from getAppBridgeHeaders_reauth[OF ok assms(4)] assms(3) obtain h where
    h: "getAppBridgeHeaders M params (redirectUri params s) s = Inr h"
    and g: "Headers_get h (REAUTH_URL_HEADER M) = Inr (Some (redirectUri params s))"
    by (auto simp: normalize_value_header_value)
  from h have "redirectWithAppBridgeHeaders M params s =
      Inl (ThrowResponse
        \<lparr>status = 401, statusText = js ''Unauthorized'', headers = h, body = None\<rparr>)"
    by (simp add: redirect_cases)
  with g show ?thesis by (simp add: redirectUri_def)
qed

theorem C2_witness:
  "is_byte_string (redirectUri (sample_params True) (js ''shop1.myshopify.com'')) \<and>
   is_header_value (redirectUri (sample_params True) (js ''shop1.myshopify.com'')) \<and>
   (\<exists>r. redirectWithAppBridgeHeaders sample_module (sample_params True)
          (js ''shop1.myshopify.com'') = Inl (ThrowResponse r) \<and>
        Headers_get (headers r) (REAUTH_URL_HEADER sample_module) =
          Inr (Some (js ''https://app.example'' @ js ''/auth'' @ js ''?shop='' @
                     js ''shop1.myshopify.com'')))"
  using C2_reauth_header_is_redirect_url
      [of sample_module "sample_params True" "js ''shop1.myshopify.com''"]
    sample_name sample_leaves sample_url
  by (simp add: sample_params_def)

section \<open>Status and header of the thrown response\<close>

text \<open>
  C3 does not hold of every shop string: for a shop with a code unit above 0xFF (here
  U+2603) the \<^verbatim>\<open>Headers\<close> constructor refuses the URL, and what the function throws is
  that \<^verbatim>\<open>TypeError\<close>, not a Response with status 401.
\<close>

theorem C3_counterexample:
  "redirectWithAppBridgeHeaders sample_module (sample_params True)
     (js ''shop'' @ [0x2603]) = Inl (ThrowError TypeError)"
  by code_simp

text \<open>
  C3, amended. For every params and every shop string whose computed redirect URL
  \<^verbatim>\<open>Headers\<close> accepts (every code unit at most 0xFF, and no NUL, line feed or carriage
  return left in it once tab, space, line feed and carriage return are removed from
  both ends), with \<^verbatim>\<open>REAUTH_URL_HEADER\<close> a header name and an \<^verbatim>\<open>addResponseHeaders\<close> that
  returns and leaves the reauth header as it found it: \<open>redirectWithAppBridgeHeaders\<close>
  throws a Response that has status 401 and status text 'Unauthorized', and whose
  headers include the header named by \<^verbatim>\<open>REAUTH_URL_HEADER\<close>.
\<close>

theorem C3_thrown_response_401_with_reauth_header:
  assumes "is_header_name (REAUTH_URL_HEADER M)"
    and "is_byte_string (redirectUri params s)"
    and "is_header_value (normalize_value (redirectUri params s))"
    and "leaves_reauth_header M (isEmbeddedApp (config params)) s"
  shows "\<exists>r. redirectWithAppBridgeHeaders M params s = Inl (ThrowResponse r) \<and>
           status r = 401 \<and> statusText r = js ''Unauthorized'' \<and>
           Headers_has (headers r) (REAUTH_URL_HEADER M) = Inr True"
proof -
  from assms have ok: "header_entry_ok (REAUTH_URL_HEADER M, redirectUri params s)"
    by (simp add: header_entry_ok_iff)
  from getAppBridgeHeaders_reauth[OF ok assms(4)] obtain h where
    h: "getAppBridgeHeaders M params (redirectUri params s) s = Inr h"
    and g: "Headers_get h (REAUTH_URL_HEADER M) =
              Inr (Some (normalize_value (redirectUri params s)))"
    by auto
  from g assms(1) have "Headers_has h (REAUTH_URL_HEADER M) = Inr True"
    by (simp add: Headers_get_def Headers_has_def)
  with h show ?thesis by (simp add: redirect_cases)
qed

theorem C3_witness:
  "leaves_reauth_header sample_module True (js ''shop1.myshopify.com'') \<and>
   (\<exists>r. redirectWithAppBridgeHeaders sample_module (sample_params True)
          (js ''shop1.myshopify.com'') = Inl (ThrowResponse r) \<and>
        status r = 401 \<and> statusText r = js ''Unauthorized'' \<and>
        Headers_has (headers r) (REAUTH_URL_HEADER sample_module) = Inr True)"
proof -
  have a: "leaves_reauth_header sample_module (isEmbeddedApp (config (sample_params True)))
             (js ''shop1.myshopify.com'')"
    by (simp add: sample_leaves)
  have b: "is_byte_string (redirectUri (sample_params True) (js ''shop1.myshopify.com''))"
    by (simp add: sample_url)
  have v: "is_header_value
             (normalize_value (redirectUri (sample_params True) (js ''shop1.myshopify.com'')))"
    by (simp add: sample_url normalize_value_header_value)
  from C3_thrown_response_401_with_reauth_header[OF sample_name b v a] sample_leaves
  show ?thesis by blast
qed

section \<open>The embedded-app headers\<close>



section \<open>The session-storage adapter\<close>

text \<open>
  C5. For every session and every key: store(session) followed by load of the session's
  key returns exactly the stored session, and delete(key) followed by load(key) returns
  nothing. The driver's calls complete.
\<close>

theorem C5_store_load_delete_load:
  "(\<exists>db'. storeSession Completes session db = Inr db' \<and>
           loadSession Completes (key session) db' = Inr (Some session)) \<and>
   (\<exists>db'. deleteSession Completes k db = Inr db' \<and> loadSession Completes k db' = Inr None)"
  by (simp add: storeSession_def loadSession_def deleteSession_def)

section \<open>How the redirect helper exits\<close>

text \<open>
  C6 does not hold of every input: for a shop with a line feed inside, the \<^verbatim>\<open>Headers\<close>
  constructor refuses the URL, and the function exits with that \<^verbatim>\<open>TypeError\<close>, not with a
  Response.
\<close>

theorem C6_counterexample:
  "redirectWithAppBridgeHeaders sample_module (sample_params False)
     (js ''shop1'' @ [0x0A] @ js ''.myshopify.com'') = Inl (ThrowError TypeError)"
  by code_simp

text \<open>
  C6, amended. \<open>redirectWithAppBridgeHeaders\<close> never returns normally: for every input
  it exits by throwing one value. With \<^verbatim>\<open>REAUTH_URL_HEADER\<close> a header name, that value is
  a Response whenever \<^verbatim>\<open>Headers\<close> accepts the redirect URL (every code unit at most 0xFF,
  and no NUL, line feed or carriage return left in it once tab, space, line feed and
  carriage return are removed from both ends) and \<^verbatim>\<open>addResponseHeaders\<close> returns normally;
  it is the constructor's \<^verbatim>\<open>TypeError\<close> whenever \<^verbatim>\<open>Headers\<close> refuses the name or the URL.
\<close>

theorem C6_exits_by_throwing:
  "(\<exists>t. redirectWithAppBridgeHeaders M params s = Inl t) \<and>
   (is_header_name (REAUTH_URL_HEADER M) \<and>
    is_byte_string (redirectUri params s) \<and>
    is_header_value (normalize_value (redirectUri params s)) \<and>
    returns_normally M (isEmbeddedApp (config params)) s \<longrightarrow>
      (\<exists>r. redirectWithAppBridgeHeaders M params s = Inl (ThrowResponse r))) \<and>
   (\<not> (is_header_name (REAUTH_URL_HEADER M) \<and>
       is_byte_string (redirectUri params s) \<and>
       is_header_value (normalize_value (redirectUri params s))) \<longrightarrow>
      redirectWithAppBridgeHeaders M params s = Inl (ThrowError TypeError))"
proof (intro conjI impI)
  show "\<exists>t. redirectWithAppBridgeHeaders M params s = Inl t"
    by (simp add: redirect_cases split: sum.splits)
next
  assume h: "is_header_name (REAUTH_URL_HEADER M) \<and>
    is_byte_string (redirectUri params s) \<and>
    is_header_value (normalize_value (redirectUri params s)) \<and>
    returns_normally M (isEmbeddedApp (config params)) s"
  then obtain h' where "addResponseHeaders M
      [(lowercase (REAUTH_URL_HEADER M), normalize_value (redirectUri params s))]
      (isEmbeddedApp (config params)) s = Inr h'"
    unfolding returns_normally_def by blast
  with h show "\<exists>r. redirectWithAppBridgeHeaders M params s = Inl (ThrowResponse r)"
    by (simp add: redirect_cases getAppBridgeHeaders_def new_Headers_single header_entry_ok_iff)
next
  assume "\<not> (is_header_name (REAUTH_URL_HEADER M) \<and>
       is_byte_string (redirectUri params s) \<and>
       is_header_value (normalize_value (redirectUri params s)))"
  then have "\<not> header_entry_ok (REAUTH_URL_HEADER M, redirectUri params s)"
    by (simp add: header_entry_ok_iff)
  then show "redirectWithAppBridgeHeaders M params s = Inl (ThrowError TypeError)"
    by (simp add: redirect_cases getAppBridgeHeaders_rejects)
qed

theorem C6_witness:
  "(\<exists>r. redirectWithAppBridgeHeaders sample_module (sample_params True)
          (js ''shop1.myshopify.com'') = Inl (ThrowResponse r)) \<and>
   redirectWithAppBridgeHeaders sample_module (sample_params True)
     (js ''shop1'' @ [0x0A] @ js ''.myshopify.com'') = Inl (ThrowError TypeError)"
proof -
  have r: "returns_normally sample_module (isEmbeddedApp (config (sample_params True)))
             (js ''shop1.myshopify.com'')"
    by (simp add: sample_leaves leaves_reauth_header_returns)
  have b: "is_byte_string (redirectUri (sample_params True) (js ''shop1.myshopify.com''))"
    by (simp add: sample_url)
  have v: "is_header_value
             (normalize_value (redirectUri (sample_params True) (js ''shop1.myshopify.com'')))"
    by (simp add: sample_url normalize_value_header_value)
  from C6_exits_by_throwing[of sample_module "sample_params True" "js ''shop1.myshopify.com''"]
    sample_name b v r
  have 1: "\<exists>r. redirectWithAppBridgeHeaders sample_module (sample_params True)
             (js ''shop1.myshopify.com'') = Inl (ThrowResponse r)" by blast
  from C6_exits_by_throwing
      [of sample_module "sample_params True" "js ''shop1'' @ [0x0A] @ js ''.myshopify.com''"]
    sample_bad_url[of True]
  have 2: "redirectWithAppBridgeHeaders sample_module (sample_params True)
     (js ''shop1'' @ [0x0A] @ js ''.myshopify.com'') = Inl (ThrowError TypeError)" by blast
  from 1 2 show ?thesis by blast
qed

section \<open>Errors of the database driver\<close>

text \<open>
  C7. For each operation of the session-storage adapter (store, load, delete): when the
  database driver raises an error, the caller receives that error, unchanged; the one
  call of the driver is not repeated and its error is not wrapped or translated.
\<close>

theorem C7_driver_errors_propagate:
  "storeSession (Raises e) session db = Inl e \<and>
   loadSession (Raises e) k db = Inl e \<and>
   deleteSession (Raises e) k db = Inl e"
  by (simp add: storeSession_def loadSession_def deleteSession_def)

section \<open>The reauth header in the headers built\<close>

text \<open>
  C8 does not hold of every url: for a url that begins with a space, the headers built
  hold the reauth header without that space, so reading it does not give the url.
\<close>

theorem C8_counterexample:
  "getAppBridgeHeaders sample_module (sample_params False)
     ([0x20] @ js ''/auth?shop=shop1.myshopify.com'') (js ''shop1.myshopify.com'')
     = Inr [(js ''x-shopify-api-request-failure-reauthorize-url'',
             js ''/auth?shop=shop1.myshopify.com'')] \<and>
   Headers_get
     [(js ''x-shopify-api-request-failure-reauthorize-url'',
       js ''/auth?shop=shop1.myshopify.com'')]
     (REAUTH_URL_HEADER sample_module)
     \<noteq> Inr (Some ([0x20] @ js ''/auth?shop=shop1.myshopify.com''))"
  by code_simp

text \<open>
  C8, amended. For every params and shop and every url that converts to a byte string
  (every code unit at most 0xFF) and is a header value (no NUL, line feed or carriage
  return in it, no tab or space at either end), with \<^verbatim>\<open>REAUTH_URL_HEADER\<close> a header name
  and an \<^verbatim>\<open>addResponseHeaders\<close> that returns and leaves the reauth header as it found it:
  the \<^verbatim>\<open>Headers\<close> object that \<open>getAppBridgeHeaders\<close> returns contains the
  \<^verbatim>\<open>REAUTH_URL_HEADER\<close> header set to url, whether \<^verbatim>\<open>config.isEmbeddedApp\<close> is true or
  false.
\<close>

theorem C8_reauth_header_unconditional:
  assumes "is_header_name (REAUTH_URL_HEADER M)"
    and "is_byte_string url"
    and "is_header_value url"
    and "leaves_reauth_header M (isEmbeddedApp (config params)) s"
  shows "\<exists>h. getAppBridgeHeaders M params url s = Inr h \<and>
           Headers_get h (REAUTH_URL_HEADER M) = Inr (Some url)"
proof -
  from assms have ok: "header_entry_ok (REAUTH_URL_HEADER M, url)"
    by (simp add: header_entry_ok_iff normalize_value_header_value)
  from getAppBridgeHeaders_reauth[OF ok assms(4)] assms(3) show ?thesis
    by (simp add: normalize_value_header_value)
qed

theorem C8_witness:
  "(\<exists>h. getAppBridgeHeaders sample_module (sample_params False)
          (js ''/auth?shop=shop1.myshopify.com'') (js ''shop1.myshopify.com'') = Inr h \<and>
        Headers_get h (REAUTH_URL_HEADER sample_module) =
          Inr (Some (js ''/auth?shop=shop1.myshopify.com''))) \<and>
   (\<exists>h. getAppBridgeHeaders sample_module (sample_params True)
          (js ''/auth?shop=shop1.myshopify.com'') (js ''shop1.myshopify.com'') = Inr h \<and>
        Headers_get h (REAUTH_URL_HEADER sample_module) =
          Inr (Some (js ''/auth?shop=shop1.myshopify.com'')))"
  using C8_reauth_header_unconditional
      [of sample_module "js ''/auth?shop=shop1.myshopify.com''" "sample_params False"
          "js ''shop1.myshopify.com''"]
    C8_reauth_header_unconditional
      [of sample_module "js ''/auth?shop=shop1.myshopify.com''" "sample_params True"
          "js ''shop1.myshopify.com''"]
    sample_name sample_url_path sample_leaves
  by simp

section \<open>The test configuration\<close>

text \<open>
  C10. The MongoDB session-storage package's jest configuration is the shared base
  configuration on every property except \<^verbatim>\<open>testTimeout\<close>, which it sets to 70000.
\<close>

theorem C10_jest_config_overrides_testTimeout_only:
  "jest_config baseConfig ''testTimeout'' = Some (JNumber 70000) \<and>
   (\<forall>k. k \<noteq> ''testTimeout'' \<longrightarrow> jest_config baseConfig k = baseConfig k)"
  by (simp add: jest_config_def)

theorem C10_witness:
  "jest_config sample_baseConfig ''testTimeout'' = Some (JNumber 70000) \<and>
   sample_baseConfig ''testTimeout'' = Some (JNumber 30000) \<and>
   jest_config sample_baseConfig ''testEnvironment'' = Some (JString ''node'') \<and>
   jest_config sample_baseConfig ''rootDir'' = None"
  using C10_jest_config_overrides_testTimeout_only[of sample_baseConfig]
  by (simp add: sample_baseConfig_def)

end
